theory Spec2Isabelle
  imports Complex_Main "HOL-Library.Word"
begin

section \<open>Errors and dictionaries\<close>

text \<open>
  The exceptions the polling core can raise. A function that may raise returns
  \<open>error + 'a\<close>, with \<open>Inl\<close> for the exception. \<open>StructError\<close> is the
  \<open>struct.error\<close> of the payload packing. \<open>OutsideModel\<close> is not an exception: it
  marks the places where Python goes on with a value the model has no type for (a
  complex number, an infinity or a NaN, the bits of a rounded float).
\<close>

datatype error = KeyError | ValueError | ZeroDivisionError | IndexError | StructError
  | UnboundLocalError | AttributeError | ModbusException | OutsideModel

text \<open>
  A Python \<open>dict\<close> whose iteration order matters is an association list in insertion
  order. Assigning to a key that is present replaces the value in place; assigning to a
  new key appends.
\<close>

fun dict_set :: "'k \<Rightarrow> 'v \<Rightarrow> ('k \<times> 'v) list \<Rightarrow> ('k \<times> 'v) list" where
  "dict_set k v [] = [(k, v)]"
| "dict_set k v (p # m) = (if fst p = k then (k, v) # m else p # dict_set k v m)"

definition dict_get :: "('k \<times> 'v) list \<Rightarrow> 'k \<Rightarrow> error + 'v" where
  "dict_get m k = (case map_of m k of None \<Rightarrow> Inl KeyError | Some v \<Rightarrow> Inr v)"

text \<open>\<open>max(d.keys())\<close>: raises \<open>ValueError\<close> on an empty dictionary.\<close>

definition max_key :: "(nat \<times> 'v) list \<Rightarrow> error + nat" where
  "max_key m = (case m of [] \<Rightarrow> Inl ValueError | p # r \<Rightarrow> Inr (fold max (map fst r) (fst p)))"

section \<open>Registers and request batches (utils/modbus.py)\<close>

text \<open>
  One adjustment is a dictionary from operator to operand, both strings; a register
  carries a list of them. The register dictionary of the configuration is a record; its
  \<open>address\<close> field holds the integer that \<open>int(register['address'])\<close> yields.
\<close>

type_synonym adjustment = "(string \<times> string) list"

record register =
  device :: string
  guid :: string
  address :: int
  reg_id :: string
  code :: string
  name :: string
  format :: string
  adjustments :: "adjustment list"

text \<open>\<open>Poller.reg_len\<close>: the word length of each of the 16 formats.\<close>

definition reg_len_table :: "(string \<times> nat) list" where
  "reg_len_table =
    [(''Signed'', 1), (''Unsigned'', 1), (''Hex - ASCII'', 1), (''Binary'', 1),
     (''Long AB CD'', 2), (''Long CD AB'', 2), (''Long BA DC'', 2), (''Long DC BA'', 2),
     (''Float AB CD'', 2), (''Float CD AB'', 2), (''Float BA DC'', 2), (''Float DC BA'', 2),
     (''Double AB CD EF GH'', 4), (''Double GH EF CD AB'', 4),
     (''Double BA DC FE HG'', 4), (''Double HG FE DC BA'', 4)]"

definition reg_len :: "string \<Rightarrow> error + nat" where
  "reg_len f = dict_get reg_len_table f"

text \<open>
  An entry of a request's \<open>map\<close> (keyed by the offset in the response) and a request:
  the dictionaries \<open>{'id', 'address', 'length', 'content'}\<close> and
  \<open>{'address', 'quantity', 'map'}\<close> built by the \<open>registers\<close> setter.
\<close>

record map_entry =
  entry_id :: string
  entry_address :: int
  entry_length :: nat
  content :: register

record request =
  req_address :: int
  quantity :: nat
  reqmap :: "(nat \<times> map_entry) list"

definition mk_entry :: "register \<Rightarrow> nat \<Rightarrow> map_entry" where
  "mk_entry register n =
     \<lparr>entry_id = reg_id register, entry_address = address register,
      entry_length = n, content = register\<rparr>"

definition mk_request :: "register \<Rightarrow> nat \<Rightarrow> request" where
  "mk_request register n =
     \<lparr>req_address = address register, quantity = n, reqmap = [(0, mk_entry register n)]\<rparr>"

text \<open>
  The body of the setter's inner loop for one register. The dictionary \<open>requests\<close> has
  the keys \<open>0 .. len - 1\<close> in insertion order, so it is a list: \<open>requests[index]\<close>
  with \<open>index = len(requests) - 1\<close> is its last element and \<open>requests[index + 1] = ...\<close>
  appends.
\<close>

definition add_register :: "request list \<Rightarrow> register \<Rightarrow> error + request list" where
  "add_register requests register =
    (if requests \<noteq> [] then
       (let request = last requests in
        case max_key (reqmap request) of Inl e \<Rightarrow> Inl e
        | Inr prev_map_index \<Rightarrow>
        (case dict_get (reqmap request) prev_map_index of Inl e \<Rightarrow> Inl e
         | Inr prev_map_data \<Rightarrow>
           (let prev_data_addr = entry_address prev_map_data;
                prev_data_len = entry_length prev_map_data
            in if address register = prev_data_addr + int prev_data_len then
                 (case reg_len (format register) of Inl e \<Rightarrow> Inl e
                  | Inr n \<Rightarrow>
                    Inr (butlast requests @
                      [request\<lparr>quantity := quantity request + n,
                         reqmap := dict_set (prev_map_index + prev_data_len)
                                     (mk_entry register n) (reqmap request)\<rparr>]))
               else
                 (case reg_len (format register) of Inl e \<Rightarrow> Inl e
                  | Inr n \<Rightarrow> Inr (requests @ [mk_request register n])))))
     else
       (case reg_len (format register) of Inl e \<Rightarrow> Inl e
        | Inr n \<Rightarrow> Inr [mk_request register n]))"

text \<open>The inner loop \<open>for register in registers\<close>, started from \<open>requests = {}\<close>.\<close>

fun plan_from :: "request list \<Rightarrow> register list \<Rightarrow> error + request list" where
  "plan_from requests [] = Inr requests"
| "plan_from requests (register # registers) =
     (case add_register requests register of Inl e \<Rightarrow> Inl e
      | Inr requests' \<Rightarrow> plan_from requests' registers)"

definition plan :: "register list \<Rightarrow> error + request list" where
  "plan registers = plan_from [] registers"

section \<open>The request planner as the specification words it\<close>

text \<open>
  The specification's planner, written from its words for comparison with the setter:
  a register is appended to the current batch when it is the first register (the
  current batch is then the empty batch that starts at it) or when its address equals
  the batch's start address plus its word count; its offset is the word count before
  the extension. Otherwise a new batch is opened at the register.
\<close>

definition empty_batch :: "register \<Rightarrow> request" where
  "empty_batch r = \<lparr>req_address = address r, quantity = 0, reqmap = []\<rparr>"

definition spec_append :: "request \<Rightarrow> register \<Rightarrow> nat \<Rightarrow> request" where
  "spec_append cur r n =
     cur\<lparr>quantity := quantity cur + n, reqmap := reqmap cur @ [(quantity cur, mk_entry r n)]\<rparr>"

definition spec_step :: "request list \<Rightarrow> register \<Rightarrow> error + request list" where
  "spec_step batches r =
     (case reg_len (format r) of Inl e \<Rightarrow> Inl e
      | Inr n \<Rightarrow>
        if batches = [] then Inr [spec_append (empty_batch r) r n]
        else if address r = req_address (last batches) + int (quantity (last batches))
        then Inr (butlast batches @ [spec_append (last batches) r n])
        else Inr (batches @ [spec_append (empty_batch r) r n]))"

fun spec_from :: "request list \<Rightarrow> register list \<Rightarrow> error + request list" where
  "spec_from batches [] = Inr batches"
| "spec_from batches (r # rs) =
     (case spec_step batches r of Inl e \<Rightarrow> Inl e | Inr batches' \<Rightarrow> spec_from batches' rs)"

definition plan_spec :: "register list \<Rightarrow> error + request list" where
  "plan_spec registers = spec_from [] registers"

text \<open>
  The layout of a request's map: the offsets start at \<open>k\<close>, each entry begins where the
  previous one ends, both in the response and in the address space, every length is
  positive, and the entries end at \<open>q\<close>.
\<close>

fun laid :: "int \<Rightarrow> nat \<Rightarrow> (nat \<times> map_entry) list \<Rightarrow> nat \<Rightarrow> bool" where
  "laid a k [] q = (k = q)"
| "laid a k (p # m) q =
     (fst p = k \<and> entry_address (snd p) = a + int k \<and> 0 < entry_length (snd p)
      \<and> laid a (k + entry_length (snd p)) m q)"

definition entry_ok :: "map_entry \<Rightarrow> bool" where
  "entry_ok e = (reg_len (format (content e)) = Inr (entry_length e)
     \<and> entry_address e = address (content e) \<and> entry_id e = reg_id (content e))"

definition wf_request :: "request \<Rightarrow> bool" where
  "wf_request r = (reqmap r \<noteq> [] \<and> laid (req_address r) 0 (reqmap r) (quantity r)
     \<and> list_all (\<lambda>p. entry_ok (snd p)) (reqmap r))"


definition summary :: "error + request list \<Rightarrow> error + (int \<times> nat) list" where
  "summary res = map_sum id (map (\<lambda>q. (req_address q, quantity q))) res"

definition example_register :: "int \<Rightarrow> string \<Rightarrow> register" where
  "example_register a f =
     \<lparr>device = ''device 1'', guid = ''d3d8ab61'', address = a, reg_id = ''20f9f032'',
      code = ''Code1'', name = ''Name 1'', format = f, adjustments = []\<rparr>"

section \<open>Python values and builtins\<close>

text \<open>
  The values the codec and the adjustment pipeline pass around. A Python \<open>float\<close> is
  modelled by the real number it denotes: the model has the finite values only, computes
  without rounding and has one zero. A register word of a response is a natural number
  (a bit of a coil response is 0 or 1).
\<close>

datatype pyval = PyNone | PyStr string | PyInt int | PyFloat real

text \<open>Slicing \<open>xs[a:b]\<close> with non-negative bounds.\<close>

definition py_slice :: "'a list \<Rightarrow> nat \<Rightarrow> nat \<Rightarrow> 'a list" where
  "py_slice xs a b = take (b - a) (drop a xs)"

text \<open>\<open>hex(n)\<close> and \<open>format(n, '016b')\<close> for \<open>n \<ge> 0\<close>.\<close>

definition digit_char :: "nat \<Rightarrow> char" where
  "digit_char d = ''0123456789abcdef'' ! d"

fun digits_of :: "nat \<Rightarrow> nat \<Rightarrow> string" where
  "digits_of b n =
     (if b < 2 \<or> n < b then [digit_char n] else digits_of b (n div b) @ [digit_char (n mod b)])"

declare digits_of.simps [simp del]

definition py_hex :: "nat \<Rightarrow> string" where
  "py_hex n = ''0x'' @ digits_of 16 n"

definition format_016b :: "nat \<Rightarrow> string" where
  "format_016b n = replicate (16 - length (digits_of 2 n)) (CHR ''0'') @ digits_of 2 n"

text \<open>
  \<open>str.isdigit\<close> and \<open>int(s)\<close>, \<open>int(s, 16)\<close>, \<open>int(s, 2)\<close> on the strings they are
  called with (ASCII digits; \<open>int(s, 16)\<close> after the \<open>0x\<close> prefix).
\<close>

definition is_dec_digit :: "char \<Rightarrow> bool" where
  "is_dec_digit c = (c \<in> set ''0123456789'')"



definition isdigit :: "string \<Rightarrow> bool" where
  "isdigit s = (s \<noteq> [] \<and> list_all is_dec_digit s)"

definition digit_value :: "char \<Rightarrow> nat" where
  "digit_value c =
     (if c \<in> set ''0123456789'' then of_char c - 48
      else if c \<in> set ''abcdef'' then of_char c - 87
      else of_char c - 55)"

definition digits_value :: "nat \<Rightarrow> string \<Rightarrow> nat" where
  "digits_value b s = foldl (\<lambda>a c. a * b + digit_value c) 0 s"


definition py_pow :: "real \<Rightarrow> real \<Rightarrow> error + real" where
  "py_pow x y =
     (if y = of_int \<lfloor>y\<rfloor> then
        (if 0 \<le> y then Inr (x ^ nat \<lfloor>y\<rfloor>)
         else if x = 0 then Inl ZeroDivisionError
         else Inr (1 / x ^ nat (- \<lfloor>y\<rfloor>)))
      else if 0 < x then Inr (x powr y)
      else if x = 0 then (if 0 < y then Inr 0 else Inl ZeroDivisionError)
      else Inl OutsideModel)"

definition py_div :: "real \<Rightarrow> real \<Rightarrow> error + real" where
  "py_div x y = (if y = 0 then Inl ZeroDivisionError else Inr (x / y))"

text \<open>
  The format \<open>f"{x:.2f}"\<close>: the value rounded to two decimals (ties to even), with the
  sign of \<open>x\<close>, at least one digit before the point and exactly two after it.
\<close>

definition round_half_even :: "real \<Rightarrow> int" where
  "round_half_even x =
     (let f = \<lfloor>x\<rfloor>; d = x - of_int f
      in if d < 1 / 2 then f else if 1 / 2 < d then f + 1 else if even f then f else f + 1)"

definition format_2f :: "real \<Rightarrow> string" where
  "format_2f x =
     (let n = nat \<bar>round_half_even (x * 100)\<bar>
      in (if x < 0 then ''-'' else []) @ digits_of 10 (n div 100) @ ''.''
         @ [digit_char (n mod 100 div 10), digit_char (n mod 10)])"

section \<open>The payload functions of the pymodbus library\<close>

text \<open>
  \<open>BinaryPayloadDecoder\<close> and \<open>BinaryPayloadBuilder\<close> belong to the pymodbus library,
  which the codec calls with a byte order and a word order. The payload is kept here as
  its list of 16-bit words in network order: packing a word with the little byte order
  and reading it back in network order swaps its two bytes.
  \<^item> \<open>fromRegisters\<close> packs every register with \<open>"!H"\<close>, which refuses a value above 65535;
  \<^item> the decoder takes the words of the value, reverses them for the little word order,
    repacks each with the byte order and reads the result in network order;
  \<^item> the builder packs the value in network order, splits it into words, reverses them
    for the little word order and packs each with the byte order; \<open>to_registers\<close> reads
    the words back in network order.
\<close>

datatype endian = Big | Little

definition bswap16 :: "nat \<Rightarrow> nat" where
  "bswap16 w = (w mod 256) * 256 + w div 256"

definition fromRegisters :: "nat list \<Rightarrow> error + nat list" where
  "fromRegisters registers =
     (if list_all (\<lambda>x. x < 65536) registers then Inr registers else Inl StructError)"

definition order_words :: "endian \<Rightarrow> endian \<Rightarrow> nat list \<Rightarrow> nat list" where
  "order_words byteorder wordorder ws =
     map (\<lambda>p. if byteorder = Little then bswap16 p else p)
       (if wordorder = Little then rev ws else ws)"

definition words_value :: "nat list \<Rightarrow> nat" where
  "words_value ws = foldl (\<lambda>a w. a * 65536 + w) 0 ws"


definition to_signed :: "nat \<Rightarrow> nat \<Rightarrow> int" where
  "to_signed bits n = (if 2 ^ (bits - 1) \<le> n then int n - 2 ^ bits else int n)"

text \<open>
  The value of an IEEE-754 bit pattern with \<open>eb\<close> exponent bits and \<open>fb\<close> fraction bits.
  Infinities and NaNs are outside the model.
\<close>

definition ieee_value :: "nat \<Rightarrow> nat \<Rightarrow> nat \<Rightarrow> error + real" where
  "ieee_value eb fb n =
     (let s = n div 2 ^ (eb + fb);
          e = (n div 2 ^ fb) mod 2 ^ eb;
          f = n mod 2 ^ fb;
          bias = 2 ^ (eb - 1) - 1 + fb;
          m = (if e = 0 then real f
               else if bias \<le> e then real ((2 ^ fb + f) * 2 ^ (e - bias))
               else real (2 ^ fb + f) / 2 ^ (bias - e));
          d = (if e = 0 then m / 2 ^ (bias - 1) else m)
      in if e = 2 ^ eb - 1 then Inl OutsideModel
         else Inr (if s = 1 then - d else d))"

definition decode_words :: "nat \<Rightarrow> endian \<Rightarrow> endian \<Rightarrow> nat list \<Rightarrow> error + nat" where
  "decode_words k byteorder wordorder registers =
     (case fromRegisters registers of Inl e \<Rightarrow> Inl e
      | Inr payload \<Rightarrow>
          if length payload < k then Inl StructError
          else Inr (words_value (order_words byteorder wordorder (take k payload))))"

definition decode_32bit_int :: "endian \<Rightarrow> endian \<Rightarrow> nat list \<Rightarrow> error + pyval" where
  "decode_32bit_int byteorder wordorder registers =
     (case decode_words 2 byteorder wordorder registers of Inl e \<Rightarrow> Inl e
      | Inr n \<Rightarrow> Inr (PyInt (to_signed 32 n)))"

definition decode_32bit_float :: "endian \<Rightarrow> endian \<Rightarrow> nat list \<Rightarrow> error + pyval" where
  "decode_32bit_float byteorder wordorder registers =
     (case decode_words 2 byteorder wordorder registers of Inl e \<Rightarrow> Inl e
      | Inr n \<Rightarrow> (case ieee_value 8 23 n of Inl e \<Rightarrow> Inl e | Inr x \<Rightarrow> Inr (PyFloat x)))"

definition decode_64bit_float :: "endian \<Rightarrow> endian \<Rightarrow> nat list \<Rightarrow> error + pyval" where
  "decode_64bit_float byteorder wordorder registers =
     (case decode_words 4 byteorder wordorder registers of Inl e \<Rightarrow> Inl e
      | Inr n \<Rightarrow> (case ieee_value 11 52 n of Inl e \<Rightarrow> Inl e | Inr x \<Rightarrow> Inr (PyFloat x)))"





section \<open>The codec (utils/coders.py)\<close>

text \<open>The class \<open>Decoder\<close>: every method takes the list of register words.\<close>

definition Decoder_signed :: "nat list \<Rightarrow> error + pyval" where
  "Decoder_signed v =
     (case v of [] \<Rightarrow> Inl IndexError
      | w # _ \<Rightarrow> Inr (PyInt (if 32767 < int w then int w - 65536 else int w)))"

definition Decoder_unsigned :: "nat list \<Rightarrow> error + pyval" where
  "Decoder_unsigned v = (case v of [] \<Rightarrow> Inl IndexError | w # _ \<Rightarrow> Inr (PyInt (int w)))"

definition Decoder_hex_ascii :: "nat list \<Rightarrow> error + pyval" where
  "Decoder_hex_ascii v = (case v of [] \<Rightarrow> Inl IndexError | w # _ \<Rightarrow> Inr (PyStr (py_hex w)))"

definition join_groups :: "string \<Rightarrow> string" where
  "join_groups s =
     py_slice s 0 4 @ '' '' @ py_slice s 4 8 @ '' '' @ py_slice s 8 12 @ '' '' @ py_slice s 12 16"

definition Decoder_binary :: "nat list \<Rightarrow> error + pyval" where
  "Decoder_binary v =
     (case v of [] \<Rightarrow> Inl IndexError | w # _ \<Rightarrow> Inr (PyStr (join_groups (format_016b w))))"

definition Decoder_long_ab_cd :: "nat list \<Rightarrow> error + pyval" where
  "Decoder_long_ab_cd v = decode_32bit_int Big Big v"

definition Decoder_long_cd_ab :: "nat list \<Rightarrow> error + pyval" where
  "Decoder_long_cd_ab v = decode_32bit_int Big Little v"

definition Decoder_long_ba_dc :: "nat list \<Rightarrow> error + pyval" where
  "Decoder_long_ba_dc v = decode_32bit_int Little Big v"

definition Decoder_long_dc_ba :: "nat list \<Rightarrow> error + pyval" where
  "Decoder_long_dc_ba v = decode_32bit_int Little Little v"

definition Decoder_float_ab_cd :: "nat list \<Rightarrow> error + pyval" where
  "Decoder_float_ab_cd v = decode_32bit_float Big Big v"

definition Decoder_float_cd_ab :: "nat list \<Rightarrow> error + pyval" where
  "Decoder_float_cd_ab v = decode_32bit_float Big Little v"

definition Decoder_float_ba_dc :: "nat list \<Rightarrow> error + pyval" where
  "Decoder_float_ba_dc v = decode_32bit_float Little Big v"

definition Decoder_float_dc_ba :: "nat list \<Rightarrow> error + pyval" where
  "Decoder_float_dc_ba v = decode_32bit_float Little Little v"

definition Decoder_double_ab_cd_ef_gh :: "nat list \<Rightarrow> error + pyval" where
  "Decoder_double_ab_cd_ef_gh v = decode_64bit_float Big Big v"

definition Decoder_double_gh_ef_cd_ab :: "nat list \<Rightarrow> error + pyval" where
  "Decoder_double_gh_ef_cd_ab v = decode_64bit_float Big Little v"

definition Decoder_double_ba_dc_fe_hg :: "nat list \<Rightarrow> error + pyval" where
  "Decoder_double_ba_dc_fe_hg v = decode_64bit_float Little Big v"

definition Decoder_double_hg_fe_dc_ba :: "nat list \<Rightarrow> error + pyval" where
  "Decoder_double_hg_fe_dc_ba v = decode_64bit_float Little Little v"
























section \<open>The adjustment pipeline (Poller._adjust, Poller._adjust_reverse)\<close>

text \<open>
  \<open>float(s)\<close> on a string is a parameter \<open>fl\<close> of the model: \<open>Inl ValueError\<close> where
  Python rejects the string. \<open>decimal_float\<close> is its value on the plain literals the
  examples use: an optional sign, digits, and an optional point followed by digits.
\<close>

type_synonym pyfloat = "string \<Rightarrow> error + real"


text \<open>
  One adjustment dictionary applied to the running value: \<open>Inl\<close> is an exception,
  \<open>Inr (Inl label)\<close> the early \<open>return operand\<close> of a lookup whose key equals the value,
  \<open>Inr (Inr result)\<close> the value after the dictionary's items. An operator that is neither
  a digit string nor one of the five signs is skipped.
\<close>

fun adjust_items :: "pyfloat \<Rightarrow> real \<Rightarrow> adjustment \<Rightarrow> error + (string + real)" where
  "adjust_items fl result [] = Inr (Inr result)"
| "adjust_items fl result ((operator, operand) # items) =
     (if isdigit operator then
        (if result = real (digits_value 10 operator) then Inr (Inl operand)
         else adjust_items fl result items)
      else if operator = ''+'' then
        (case fl operand of Inl e \<Rightarrow> Inl e
         | Inr x \<Rightarrow> adjust_items fl (result + x) items)
      else if operator = ''-'' then
        (case fl operand of Inl e \<Rightarrow> Inl e
         | Inr x \<Rightarrow> adjust_items fl (result - x) items)
      else if operator = ''*'' then
        (case fl operand of Inl e \<Rightarrow> Inl e
         | Inr x \<Rightarrow> adjust_items fl (result * x) items)
      else if operator = ''/'' then
        (case fl operand of Inl e \<Rightarrow> Inl e
         | Inr x \<Rightarrow> (case py_div result x of Inl e \<Rightarrow> Inl e
                     | Inr y \<Rightarrow> adjust_items fl y items))
      else if operator = ''^'' then
        (case fl operand of Inl e \<Rightarrow> Inl e
         | Inr x \<Rightarrow> (case py_pow result x of Inl e \<Rightarrow> Inl e
                     | Inr y \<Rightarrow> adjust_items fl y items))
      else adjust_items fl result items)"

fun adjust_loop :: "pyfloat \<Rightarrow> real \<Rightarrow> adjustment list \<Rightarrow> error + (string + real)" where
  "adjust_loop fl result [] = Inr (Inr result)"
| "adjust_loop fl result (adjustment # adjs) =
     (case adjust_items fl result adjustment of Inl e \<Rightarrow> Inl e
      | Inr (Inl label) \<Rightarrow> Inr (Inl label)
      | Inr (Inr result') \<Rightarrow> adjust_loop fl result' adjs)"

definition adjust :: "pyfloat \<Rightarrow> pyval \<Rightarrow> adjustment list \<Rightarrow> error + pyval" where
  "adjust fl v adjs =
     (case v of
        PyNone \<Rightarrow> Inr PyNone
      | PyStr s \<Rightarrow> Inr (PyStr s)
      | _ \<Rightarrow>
        (case adjust_loop fl (case v of PyInt i \<Rightarrow> real_of_int i | PyFloat x \<Rightarrow> x | _ \<Rightarrow> 0)
                adjs of
           Inl e \<Rightarrow> Inl e
         | Inr (Inl label) \<Rightarrow> Inr (PyStr label)
         | Inr (Inr result) \<Rightarrow> Inr (PyStr (format_2f result))))"




section \<open>Decoding and encoding a value (Poller.decode_value, Poller.encode_value)\<close>

definition decoder_dict :: "(string \<times> (nat list \<Rightarrow> error + pyval)) list" where
  "decoder_dict =
    [(''Signed'', Decoder_signed), (''Unsigned'', Decoder_unsigned),
     (''Hex - ASCII'', Decoder_hex_ascii), (''Binary'', Decoder_binary),
     (''Long AB CD'', Decoder_long_ab_cd), (''Long CD AB'', Decoder_long_cd_ab),
     (''Long BA DC'', Decoder_long_ba_dc), (''Long DC BA'', Decoder_long_dc_ba),
     (''Float AB CD'', Decoder_float_ab_cd), (''Float CD AB'', Decoder_float_cd_ab),
     (''Float BA DC'', Decoder_float_ba_dc), (''Float DC BA'', Decoder_float_dc_ba),
     (''Double AB CD EF GH'', Decoder_double_ab_cd_ef_gh),
     (''Double GH EF CD AB'', Decoder_double_gh_ef_cd_ab),
     (''Double BA DC FE HG'', Decoder_double_ba_dc_fe_hg),
     (''Double HG FE DC BA'', Decoder_double_hg_fe_dc_ba)]"

definition decode_value :: "pyfloat \<Rightarrow> nat list \<Rightarrow> string \<Rightarrow> adjustment list \<Rightarrow> error + pyval" where
  "decode_value fl raw_value data_format adjs =
     (if raw_value \<noteq> [] then
        (case map_of decoder_dict data_format of
           Some dec \<Rightarrow>
             (case dec raw_value of Inl e \<Rightarrow> Inl e | Inr v \<Rightarrow> adjust fl v adjs)
         | None \<Rightarrow> Inl ValueError)
      else Inl ValueError)"




section \<open>One poll cycle (Poller._poll and the registers getter)\<close>

text \<open>
  What the connection object does with a read request (function code, address, count):
  it answers with the registers (or the bits, as 0 and 1), answers with an error
  response, answers nothing, or raises \<open>ConnectionException\<close> or another
  \<open>ModbusException\<close>.
\<close>

datatype wire_reply = Reply "nat list" | ErrorReply | NoReply
  | RaisesConnectionException | RaisesModbusException

type_synonym connection = "nat \<Rightarrow> int \<Rightarrow> nat \<Rightarrow> wire_reply"

definition poll :: "connection \<Rightarrow> nat \<Rightarrow> int \<Rightarrow> nat \<Rightarrow> error + nat list option" where
  "poll conn func reg_address reg_qnty =
     (if func \<in> {1, 2, 3, 4} then
        (case conn func reg_address reg_qnty of
           RaisesConnectionException \<Rightarrow> Inr None
         | RaisesModbusException \<Rightarrow> Inl ModbusException
         | NoReply \<Rightarrow> Inr None
         | ErrorReply \<Rightarrow> Inr None
         | Reply ws \<Rightarrow> Inr (Some (if func \<in> {1, 2} then take reg_qnty ws else ws)))
      else Inr None)"

text \<open>A row of the result: the twelve fields the getter appends for one register.\<close>

record row =
  row_device :: string
  row_id :: string
  row_address :: int
  row_name :: string
  row_code :: string
  row_format :: string
  row_value :: pyval
  row_response :: "nat list option"
  row_time :: string
  row_changed :: bool
  row_fn :: nat
  row_guid :: string

text \<open>
  The three nested loops of the getter. \<open>clock\<close> gives the formatted time at which the
  \<open>n\<close>-th row of the cycle is built. An exception leaves all loops.
\<close>

fun map_loop :: "pyfloat \<Rightarrow> (nat \<Rightarrow> string) \<Rightarrow> nat \<Rightarrow> nat list option
    \<Rightarrow> (nat \<times> map_entry) list \<Rightarrow> row list \<Rightarrow> error + row list" where
  "map_loop fl clock fn response [] result = Inr result"
| "map_loop fl clock fn response ((pos, register) # m) result =
     (case reg_len (format (content register)) of Inl e \<Rightarrow> Inl e
      | Inr len \<Rightarrow>
        (let raw_value = (case response of None \<Rightarrow> []
                          | Some ws \<Rightarrow> if ws = [] then [] else py_slice ws pos (pos + len))
         in case decode_value fl raw_value (format (content register))
                  (adjustments (content register)) of
              Inl e \<Rightarrow> Inl e
            | Inr v \<Rightarrow>
                map_loop fl clock fn response m
                  (result @
                    [\<lparr>row_device = device (content register),
                      row_id = reg_id (content register),
                      row_address = address (content register),
                      row_name = name (content register),
                      row_code = code (content register),
                      row_format = format (content register),
                      row_value = v,
                      row_response = response,
                      row_time = clock (length result),
                      row_changed = True,
                      row_fn = fn,
                      row_guid = guid (content register)\<rparr>])))"

fun request_loop :: "pyfloat \<Rightarrow> (nat \<Rightarrow> string) \<Rightarrow> connection \<Rightarrow> nat
    \<Rightarrow> request list \<Rightarrow> row list \<Rightarrow> error + row list" where
  "request_loop fl clock conn fn [] result = Inr result"
| "request_loop fl clock conn fn (request # rs) result =
     (case poll conn fn (req_address request) (quantity request) of Inl e \<Rightarrow> Inl e
      | Inr response \<Rightarrow>
        (case map_loop fl clock fn response (reqmap request) result of Inl e \<Rightarrow> Inl e
         | Inr result' \<Rightarrow> request_loop fl clock conn fn rs result'))"

fun function_loop :: "pyfloat \<Rightarrow> (nat \<Rightarrow> string) \<Rightarrow> connection
    \<Rightarrow> (nat \<times> request list) list \<Rightarrow> row list \<Rightarrow> error + row list" where
  "function_loop fl clock conn [] result = Inr result"
| "function_loop fl clock conn ((fn, rs) # items) result =
     (case request_loop fl clock conn fn rs result of Inl e \<Rightarrow> Inl e
      | Inr result' \<Rightarrow> function_loop fl clock conn items result')"

text \<open>
  The getter: a \<open>ModbusException\<close> is caught and gives \<open>None\<close>, any other exception
  leaves the getter. After the loops \<open>del response\<close> and \<open>del content\<close> raise
  \<open>UnboundLocalError\<close> when no request, respectively no map entry, was visited.
\<close>

definition registers_get :: "pyfloat \<Rightarrow> (nat \<Rightarrow> string) \<Rightarrow> connection
    \<Rightarrow> (nat \<times> request list) list \<Rightarrow> error + row list option" where
  "registers_get fl clock conn reqs =
     (case function_loop fl clock conn reqs [] of
        Inl e \<Rightarrow> if e = ModbusException then Inr None else Inl e
      | Inr result \<Rightarrow>
          if concat (map snd reqs) = [] then Inl UnboundLocalError
          else if list_all (\<lambda>q. reqmap q = []) (concat (map snd reqs)) then Inl UnboundLocalError
          else Inr (Some result))"

text \<open>
  The example of a cycle with a failing batch: holding registers (function 3) at the
  addresses 0 and 5, and a connection that answers the read at address 0 and nothing
  else.
\<close>

definition example_connection :: connection where
  "example_connection func a n = (if a = 0 then Reply [7] else NoReply)"

definition example_clock :: "nat \<Rightarrow> string" where
  "example_clock n = ''03-11-2026 12:00:00''"

section \<open>The polling worker (utils/workers.py)\<close>

text \<open>
  \<open>Worker.run\<close> on the worker's \<open>sleep\<close> and \<open>_exec_time\<close> (milliseconds): the time it
  sleeps and the state it leaves.
\<close>

record worker =
  sleep :: int
  exec_time :: int

definition Worker_run :: "worker \<Rightarrow> int \<times> worker" where
  "Worker_run w =
     (let w1 = (if sleep w < exec_time w then w\<lparr>exec_time := 0\<rparr> else w)
      in (sleep w1 - exec_time w1, w1\<lparr>exec_time := 0\<rparr>))"

text \<open>
  The end of one cycle of \<open>PollingWorker.run\<close>: the measured duration \<open>elapsed\<close> of the
  cycle is stored in \<open>_exec_time\<close> and \<open>Worker.run\<close> sleeps. \<open>cycle_gap\<close> is the time from
  the start of the cycle to the start of the next one.
\<close>

definition cycle_sleep :: "int \<Rightarrow> int \<Rightarrow> int" where
  "cycle_sleep target elapsed = fst (Worker_run \<lparr>sleep = target, exec_time = elapsed\<rparr>)"

definition cycle_gap :: "int \<Rightarrow> int \<Rightarrow> int" where
  "cycle_gap target elapsed = elapsed + cycle_sleep target elapsed"


section \<open>The Poller object and the settings dictionary it is given\<close>

text \<open>
  The constructor keeps the dictionary it is given (\<open>self._settings = settings\<close>), so
  the caller and the Poller hold the same object. Dictionaries live in a store, from
  references to their contents; the Poller holds the reference.
\<close>

datatype setting = SInt int | SStr string

type_synonym settings = "(string \<times> setting) list"

type_synonym store = "nat \<Rightarrow> settings"

datatype client =
    ModbusTcpClient setting
  | ModbusSerialClient "setting option" "setting option" setting setting setting

record poller =
  p_settings :: nat
  p_requests :: "(nat \<times> request list) list"
  p_connection :: "client option"


definition get_scan_rate :: "store \<Rightarrow> poller \<Rightarrow> setting option" where
  "get_scan_rate h p = map_of (h (p_settings p)) ''scan_rate''"












section \<open>Steps on which the reverse pipeline is exact\<close>


section \<open>Digits, formatting and the decimal literals\<close>





















section \<open>Properties of the request planner\<close>

lemma reg_len_Signed: "reg_len ''Signed'' = Inr 1"
  by (simp add: reg_len_def dict_get_def reg_len_table_def)


lemma laid_bounds: "laid a k m q \<Longrightarrow> k \<le> q \<and> (\<forall>p\<in>set m. k \<le> fst p \<and> fst p < q)"
  by (induction m arbitrary: k) fastforce+

lemma laid_append:
  "laid a k (m @ [(k', e)]) q \<longleftrightarrow>
     laid a k m k' \<and> entry_address e = a + int k' \<and> 0 < entry_length e \<and> q = k' + entry_length e"
  by (induction m arbitrary: k) auto

lemma laid_last:
  "laid a k m q \<Longrightarrow> m \<noteq> [] \<Longrightarrow>
     fst (last m) + entry_length (snd (last m)) = q
     \<and> entry_address (snd (last m)) = a + int (fst (last m))"
  by (induction m arbitrary: k) auto

lemma fold_max_laid:
  "laid a k m q \<Longrightarrow> m \<noteq> [] \<Longrightarrow> k0 \<le> k \<Longrightarrow> fold max (map fst m) k0 = fst (last m)"
proof (induction m arbitrary: k k0)
  case Nil then show ?case by simp
next
  case (Cons p m)
  show ?case
  proof (cases m)
    case Nil with Cons.prems show ?thesis by (simp add: max_def)
  next
    case (Cons p' m')
    with Cons.prems Cons.IH[of "k + entry_length (snd p)" "max (fst p) k0"] show ?thesis
      by (auto simp: max_def)
  qed
qed

lemma max_key_laid: "laid a k m q \<Longrightarrow> m \<noteq> [] \<Longrightarrow> max_key m = Inr (fst (last m))"
proof (cases m)
  case Nil then show "m \<noteq> [] \<Longrightarrow> ?thesis" by simp
next
  case (Cons p r)
  assume l: "laid a k m q"
  show ?thesis
  proof (cases r)
    case Nil with Cons show ?thesis by (simp add: max_key_def)
  next
    case (Cons p' r')
    from l \<open>m = p # r\<close> have "laid a (k + entry_length (snd p)) r q" "fst p = k" by auto
    from fold_max_laid[OF this(1), of "fst p"] Cons this(2) \<open>m = p # r\<close> show ?thesis
      by (simp add: max_key_def)
  qed
qed

lemma map_of_laid_last:
  "laid a k m q \<Longrightarrow> m \<noteq> [] \<Longrightarrow> map_of m (fst (last m)) = Some (snd (last m))"
proof (induction m arbitrary: k)
  case Nil then show ?case by simp
next
  case (Cons p m)
  show ?case
  proof (cases m)
    case Nil then show ?thesis by (cases p) simp
  next
    case (Cons p' m')
    from Cons.prems have l: "laid a (k + entry_length (snd p)) m q" and fp: "fst p = k"
      and pos: "0 < entry_length (snd p)" by auto
    from laid_bounds[OF l] Cons have "k + entry_length (snd p) \<le> fst (last m)"
      by (metis last_in_set list.distinct(1))
    with pos fp have "fst (last m) \<noteq> fst p" by simp
    with Cons.IH[OF l] Cons show ?thesis by (cases p) auto
  qed
qed

lemma dict_set_fresh: "\<forall>p\<in>set m. fst p \<noteq> k \<Longrightarrow> dict_set k v m = m @ [(k, v)]"
  by (induction m) auto

lemma dict_set_laid: "laid a k m q \<Longrightarrow> dict_set q v m = m @ [(q, v)]"
  using laid_bounds[of a k m q] by (intro dict_set_fresh) fastforce

lemma reg_len_pos: "reg_len f = Inr n \<Longrightarrow> 0 < n"
  by (auto simp: reg_len_def dict_get_def reg_len_table_def split: if_splits)

lemma add_register_spec:
  assumes "\<forall>q\<in>set requests. wf_request q"
  shows "add_register requests r = spec_step requests r"
proof (cases "requests = []")
  case True
  then show ?thesis
    by (simp add: add_register_def spec_step_def spec_append_def empty_batch_def mk_request_def
        split: sum.splits)
next
  case False
  then have "wf_request (last requests)" using assms by simp
  then have ne: "reqmap (last requests) \<noteq> []"
    and l: "laid (req_address (last requests)) 0 (reqmap (last requests)) (quantity (last requests))"
    by (simp_all add: wf_request_def)
  note mk = max_key_laid[OF l ne]
  note dg = map_of_laid_last[OF l ne]
  note ll = laid_last[OF l ne]
  note ds = dict_set_laid[OF l]
  from ll have e1: "entry_address (snd (last (reqmap (last requests))))
        + int (entry_length (snd (last (reqmap (last requests)))))
      = req_address (last requests) + int (quantity (last requests))"
    and e2: "fst (last (reqmap (last requests)))
        + entry_length (snd (last (reqmap (last requests)))) = quantity (last requests)"
    by auto
  show ?thesis
  proof (cases "reg_len (format r)")
    case (Inl e)
    with False mk dg show ?thesis
      by (simp add: add_register_def spec_step_def dict_get_def Let_def)
  next
    case (Inr n)
    with False mk dg show ?thesis
      unfolding add_register_def spec_step_def dict_get_def Let_def spec_append_def
        empty_batch_def mk_request_def
      by (simp add: e1 e2 ds)
  qed
qed

lemma spec_step_wf:
  assumes "\<forall>q\<in>set bs. wf_request q" and "spec_step bs r = Inr bs'"
  shows "\<forall>q\<in>set bs'. wf_request q"
proof (cases "reg_len (format r)")
  case (Inl e)
  with assms(2) show ?thesis by (simp add: spec_step_def)
next
  case (Inr n)
  then have n: "0 < n" by (rule reg_len_pos)
  have new: "wf_request (spec_append (empty_batch r) r n)"
    using n Inr by (simp add: wf_request_def spec_append_def empty_batch_def mk_entry_def entry_ok_def)
  show ?thesis
  proof (cases "bs = []")
    case True
    with assms(2) Inr new show ?thesis by (auto simp: spec_step_def)
  next
    case False
    show ?thesis
    proof (cases "address r = req_address (last bs) + int (quantity (last bs))")
      case True
      from False assms(1) have "wf_request (last bs)" by simp
      then have "wf_request (spec_append (last bs) r n)"
        using n True Inr
        by (simp add: wf_request_def spec_append_def laid_append mk_entry_def entry_ok_def)
      moreover have "\<forall>q\<in>set (butlast bs). wf_request q"
        using assms(1) by (meson in_set_butlastD)
      ultimately show ?thesis using assms(2) Inr False True by (auto simp: spec_step_def)
    next
      case neq: False
      with assms Inr False new show ?thesis by (auto simp: spec_step_def)
    qed
  qed
qed

lemma plan_from_spec:
  "\<forall>q\<in>set requests. wf_request q \<Longrightarrow> plan_from requests rs = spec_from requests rs"
proof (induction rs arbitrary: requests)
  case Nil
  then show ?case by simp
next
  case (Cons r rs)
  show ?case
  proof (cases "spec_step requests r")
    case (Inl e)
    with Cons.prems show ?thesis by (simp add: add_register_spec)
  next
    case (Inr bs')
    with Cons.prems have "\<forall>q\<in>set bs'. wf_request q" by (blast intro: spec_step_wf[rule_format])
    from Cons.IH[OF this] Inr Cons.prems show ?thesis by (simp add: add_register_spec)
  qed
qed


lemma plan_refines: "plan rs = plan_spec rs"
  by (simp add: plan_def plan_spec_def plan_from_spec)











lemma plan_three:
  assumes "map address regs = [a0, a1, a2]" and "\<forall>r\<in>set regs. reg_len (format r) = Inr 1"
  shows "summary (plan_spec regs) =
    (if a1 = a0 + 1 then
       (if a2 = a0 + 2 then Inr [(a0, 3)] else Inr [(a0, 2), (a2, 1)])
     else if a2 = a1 + 1 then Inr [(a0, 1), (a1, 2)] else Inr [(a0, 1), (a1, 1), (a2, 1)])"
proof -
  from assms(1) obtain r0 r1 r2 where regs: "regs = [r0, r1, r2]"
    and a: "address r0 = a0" "address r1 = a1" "address r2 = a2"
    by (auto simp: map_eq_Cons_conv)
  with assms(2) have f: "reg_len (format r0) = Inr 1" "reg_len (format r1) = Inr 1"
    "reg_len (format r2) = Inr 1" by simp_all
  show ?thesis
    by (simp add: regs a f plan_spec_def spec_step_def spec_append_def empty_batch_def summary_def)
qed

text \<open>
  C3: the \<open>registers\<close> setter builds, for every register list, exactly the batches of
  the specification's planner: a register joins the current batch iff it is the first
  one or its address equals the batch's start address plus its current word count, the
  batch's quantity grows by the register's word length and the register's offset is the
  quantity before the extension; otherwise a new batch is opened at the register.
  One-word registers at addresses 0, 1, 2 give the single batch (start 0, count 3), and
  at addresses 0, 1, 3 the two batches (0, 2) and (3, 1).
\<close>

theorem planner_merges_contiguous:
  "plan regs = plan_spec regs
   \<and> (map address regs = [0, 1, 2] \<and> (\<forall>r\<in>set regs. reg_len (format r) = Inr 1)
        \<longrightarrow> summary (plan regs) = Inr [(0, 3)])
   \<and> (map address regs = [0, 1, 3] \<and> (\<forall>r\<in>set regs. reg_len (format r) = Inr 1)
        \<longrightarrow> summary (plan regs) = Inr [(0, 2), (3, 1)])"
proof (intro conjI impI)
  show "plan regs = plan_spec regs" by (rule plan_refines)
next
  assume "map address regs = [0, 1, 2] \<and> (\<forall>r\<in>set regs. reg_len (format r) = Inr 1)"
  then show "summary (plan regs) = Inr [(0, 3)]"
    using plan_three[of regs 0 1 2] by (simp add: plan_refines)
next
  assume "map address regs = [0, 1, 3] \<and> (\<forall>r\<in>set regs. reg_len (format r) = Inr 1)"
  then show "summary (plan regs) = Inr [(0, 2), (3, 1)]"
    using plan_three[of regs 0 1 3] by (simp add: plan_refines)
qed

theorem planner_merges_contiguous_witness:
  "(map address (map (\<lambda>a. example_register a ''Signed'') [0, 1, 2]) = [0, 1, 2]
    \<and> list_all (\<lambda>r. reg_len (format r) = Inr 1)
          (map (\<lambda>a. example_register a ''Signed'') [0, 1, 2])
    \<and> summary (plan (map (\<lambda>a. example_register a ''Signed'') [0, 1, 2])) = Inr [(0, 3)])
   \<and> (map address (map (\<lambda>a. example_register a ''Signed'') [0, 1, 3]) = [0, 1, 3]
    \<and> list_all (\<lambda>r. reg_len (format r) = Inr 1)
          (map (\<lambda>a. example_register a ''Signed'') [0, 1, 3])
    \<and> summary (plan (map (\<lambda>a. example_register a ''Signed'') [0, 1, 3])) = Inr [(0, 2), (3, 1)])"
proof -
  let ?A = "map (\<lambda>a. example_register a ''Signed'') [0, 1, 2]"
  let ?B = "map (\<lambda>a. example_register a ''Signed'') [0, 1, 3]"
  have a: "map address ?A = [0, 1, 2] \<and> (\<forall>r\<in>set ?A. reg_len (format r) = Inr 1)"
    by (simp add: example_register_def reg_len_Signed)
  have b: "map address ?B = [0, 1, 3] \<and> (\<forall>r\<in>set ?B. reg_len (format r) = Inr 1)"
    by (simp add: example_register_def reg_len_Signed)
  note ra = planner_merges_contiguous[of ?A, THEN conjunct2, THEN conjunct1, THEN mp, OF a]
  note rb = planner_merges_contiguous[of ?B, THEN conjunct2, THEN conjunct2, THEN mp, OF b]
  from a have a': "map address ?A = [0, 1, 2]"
    "list_all (\<lambda>r. reg_len (format r) = Inr 1) ?A" unfolding list_all_iff by blast+
  from b have b': "map address ?B = [0, 1, 3]"
    "list_all (\<lambda>r. reg_len (format r) = Inr 1) ?B" unfolding list_all_iff by blast+
  from a' b' ra rb show ?thesis by (intro conjI)
qed



section \<open>A poll cycle with a failing batch\<close>

lemma map_loop_no_data:
  assumes "reg_len (format (content (snd p))) = Inr n"
  shows "map_loop fl clock fn None (p # m) result = Inl ValueError"
  using assms by (cases p) (simp add: decode_value_def)

lemma poll_no_data:
  "conn fn a n \<in> {NoReply, ErrorReply, RaisesConnectionException} \<Longrightarrow> poll conn fn a n = Inr None"
  by (auto simp: poll_def)

lemma request_loop_no_data:
  assumes "conn fn (req_address q) (quantity q) \<in> {NoReply, ErrorReply, RaisesConnectionException}"
    and "reqmap q = p # m" and "reg_len (format (content (snd p))) = Inr n"
  shows "request_loop fl clock conn fn (q # rs) result = Inl ValueError"
  using poll_no_data[of conn fn "req_address q" "quantity q", OF assms(1)]
    map_loop_no_data[OF assms(3)] assms(2) by simp

lemma example_plan:
  "plan [example_register 0 ''Signed'', example_register 5 ''Signed''] =
     Inr [mk_request (example_register 0 ''Signed'') 1, mk_request (example_register 5 ''Signed'') 1]"
  by (simp add: plan_def add_register_def reg_len_Signed max_key_def dict_get_def
      mk_request_def mk_entry_def example_register_def)

lemma decode_signed_7: "decode_value fl [7] ''Signed'' [] = Inr (PyStr ''7.00'')"
  by (simp add: decode_value_def decoder_dict_def Decoder_signed_def adjust_def format_2f_def
      round_half_even_def digit_char_def digits_of.simps)

text \<open>
  C1: the cycle over the two batches at the addresses 0 and 5, where the connection
  answers the first read with the word 7 and the second with nothing, does not return
  the row of the first batch: the getter raises \<open>ValueError\<close> (decode_value on the empty
  slice), which its \<open>except ModbusException\<close> does not catch. With the first batch alone
  the same cycle returns its one row.
\<close>

theorem failed_batch_raises:
  "registers_get fl example_clock example_connection
      [(3, [mk_request (example_register 0 ''Signed'') 1,
            mk_request (example_register 5 ''Signed'') 1])] = Inl ValueError
   \<and> registers_get fl example_clock example_connection
      [(3, [mk_request (example_register 0 ''Signed'') 1])] =
     Inr (Some [\<lparr>row_device = ''device 1'', row_id = ''20f9f032'', row_address = 0,
       row_name = ''Name 1'', row_code = ''Code1'', row_format = ''Signed'',
       row_value = PyStr ''7.00'', row_response = Some [7],
       row_time = ''03-11-2026 12:00:00'', row_changed = True, row_fn = 3,
       row_guid = ''d3d8ab61''\<rparr>])
   \<and> plan [example_register 0 ''Signed'', example_register 5 ''Signed''] =
     Inr [mk_request (example_register 0 ''Signed'') 1, mk_request (example_register 5 ''Signed'') 1]"
proof (intro conjI)
  have p0: "poll example_connection 3 0 1 = Inr (Some [7])"
    by (simp add: poll_def example_connection_def)
  have p5: "poll example_connection 3 5 1 = Inr None"
    by (simp add: poll_def example_connection_def)
  have m0: "map_loop fl example_clock 3 (Some [7])
      (reqmap (mk_request (example_register 0 ''Signed'') 1)) [] =
     Inr [\<lparr>row_device = ''device 1'', row_id = ''20f9f032'', row_address = 0,
       row_name = ''Name 1'', row_code = ''Code1'', row_format = ''Signed'',
       row_value = PyStr ''7.00'', row_response = Some [7],
       row_time = ''03-11-2026 12:00:00'', row_changed = True, row_fn = 3,
       row_guid = ''d3d8ab61''\<rparr>]"
    by (simp add: mk_request_def mk_entry_def example_register_def reg_len_Signed py_slice_def
        decode_signed_7 example_clock_def)
  have m5: "map_loop fl example_clock 3 None
      (reqmap (mk_request (example_register 5 ''Signed'') 1)) r = Inl ValueError" for r
    by (simp add: mk_request_def mk_entry_def example_register_def reg_len_Signed
        decode_value_def)
  have a0: "req_address (mk_request (example_register 0 ''Signed'') 1) = 0"
    "quantity (mk_request (example_register 0 ''Signed'') 1) = 1"
    "req_address (mk_request (example_register 5 ''Signed'') 1) = 5"
    "quantity (mk_request (example_register 5 ''Signed'') 1) = 1"
    "reqmap (mk_request (example_register 0 ''Signed'') 1) \<noteq> []"
    by (simp_all add: mk_request_def example_register_def)
  show "registers_get fl example_clock example_connection
      [(3, [mk_request (example_register 0 ''Signed'') 1,
            mk_request (example_register 5 ''Signed'') 1])] = Inl ValueError"
    by (simp add: registers_get_def a0 p0 p5 m0 m5 del: One_nat_def)
  show "registers_get fl example_clock example_connection
      [(3, [mk_request (example_register 0 ''Signed'') 1])] =
     Inr (Some [\<lparr>row_device = ''device 1'', row_id = ''20f9f032'', row_address = 0,
       row_name = ''Name 1'', row_code = ''Code1'', row_format = ''Signed'',
       row_value = PyStr ''7.00'', row_response = Some [7],
       row_time = ''03-11-2026 12:00:00'', row_changed = True, row_fn = 3,
       row_guid = ''d3d8ab61''\<rparr>])"
    by (simp add: registers_get_def a0 p0 m0 del: One_nat_def)
  show "plan [example_register 0 ''Signed'', example_register 5 ''Signed''] =
     Inr [mk_request (example_register 0 ''Signed'') 1, mk_request (example_register 5 ''Signed'') 1]"
    by (rule example_plan)
qed

section \<open>The cadence of the polling loop\<close>

text \<open>
  C2, as the claim states it, fails: with a target interval of 1000 ms and a cycle that
  took 1200 ms the worker does not skip the sleep, it sleeps the full 1000 ms.
\<close>

theorem cadence_counterexample:
  "cycle_sleep 1000 1200 = 1000 \<and> cycle_sleep 1000 1200 \<noteq> max 0 (1000 - 1200)
   \<and> cycle_gap 1000 1200 = 2200"
  by (simp add: cycle_sleep_def cycle_gap_def Worker_run_def)

text \<open>
  C2, amended: a cycle that took no longer than the target interval is followed by a
  sleep of the remaining time, so that the next cycle starts one interval after this one;
  a cycle that took longer is followed by a sleep of the whole interval.
\<close>

theorem cadence:
  "(elapsed \<le> target \<longrightarrow>
      cycle_sleep target elapsed = target - elapsed \<and> cycle_gap target elapsed = target)
   \<and> (target < elapsed \<longrightarrow>
      cycle_sleep target elapsed = target \<and> cycle_gap target elapsed = elapsed + target)"
  by (simp add: cycle_sleep_def cycle_gap_def Worker_run_def)

theorem cadence_witness:
  "(200::int) \<le> 1000 \<and> cycle_sleep 1000 200 = 800 \<and> cycle_gap 1000 200 = 1000
   \<and> (1000::int) < 1200 \<and> cycle_sleep 1000 1200 = 1000 \<and> cycle_gap 1000 1200 = 2200"
  using cadence[of 200 1000] cadence[of 1200 1000] by simp

section \<open>The settings dictionary\<close>









section \<open>String values in the adjustment pipeline\<close>

text \<open>
  C10: the adjustment pipeline returns a string value as it is, whatever the
  adjustments; so a register of the formats Binary and Hex - ASCII, whose decoders
  return strings, is shown as the decoder's string with every adjustment list.
\<close>

theorem string_value_unchanged:
  "adjust fl (PyStr s) adjs = Inr (PyStr s)
   \<and> decode_value fl (w # ws) ''Binary'' adjs = Inr (PyStr (join_groups (format_016b w)))
   \<and> decode_value fl (w # ws) ''Hex - ASCII'' adjs = Inr (PyStr (py_hex w))"
  by (simp add: adjust_def decode_value_def decoder_dict_def Decoder_binary_def
      Decoder_hex_ascii_def)

section \<open>The write path\<close>











section \<open>The forward adjustment pipeline\<close>





section \<open>The reverse adjustment pipeline\<close>








end
